theory Spec2Isabelle
  imports Main "HOL-Library.Word"
begin

section \<open>The command registry of \<open>jbc_FE_commands_full.h\<close>\<close>

text \<open>
  The header declares, inside \<open>namespace jbc_cmd\<close>, two nested namespaces of
  \<open>static const uint8_t\<close> constants. A namespace is embedded as the list of its
  declarations, in the order of the header: each entry pairs the declared name with
  the declared 8-bit value.
\<close>

type_synonym u8 = "8 word"

type_synonym cmd_table = "(string \<times> u8) list"

text \<open>\<open>namespace BASE\<close>, lines 20 to 27 of the header.\<close>

definition BASE :: cmd_table where
  "BASE =
    [(''M_HS'', 0),
     (''M_ACK'', 6),
     (''M_NACK'', 21),
     (''M_SYN'', 22),
     (''M_RESET'', 32),
     (''M_FIRMWARE'', 33)]"

text \<open>\<open>namespace FE_02\<close>, lines 29 to 95 of the header.\<close>

definition FE_02 :: cmd_table where
  "FE_02 =
    [(''M_HS'', 0),
     (''M_EOT'', 4),
     (''M_ACK'', 6),
     (''M_NACK'', 21),
     (''M_SYN'', 22),
     (''M_R_DEVICEIDORIGINAL'', 28),
     (''M_R_DISCOVER'', 29),
     (''M_R_DEVICEID'', 30),
     (''M_W_DEVICEID'', 31),
     (''M_RESET'', 32),
     (''M_FIRMWARE'', 33),
     (''M_CLEARMEMFLASH'', 34),
     (''M_SENDMEMADDRESS'', 35),
     (''M_SENDMEMDATA'', 36),
     (''M_ENDPROGR'', 37),
     (''M_ENDUPD'', 38),
     (''M_CONTINUEUPD'', 39),
     (''M_CLEARING'', 40),
     (''M_FORCEUPDATE'', 41),
     (''M_R_SUCTIONLEVEL'', 48),
     (''M_W_SUCTIONLEVEL'', 49),
     (''M_R_FLOW'', 50),
     (''M_R_SPEED'', 51),
     (''M_R_SELECTFLOW'', 52),
     (''M_W_SELECTFLOW'', 53),
     (''M_R_STANDINTAKES'', 54),
     (''M_W_STANDINTAKES'', 55),
     (''M_R_INTAKEACTIVATION'', 56),
     (''M_W_INTAKEACTIVATION'', 57),
     (''M_R_SUCTIONDELAY'', 58),
     (''M_W_SUCTIONDELAY'', 59),
     (''M_R_DELAYTIME'', 60),
     (''M_R_ACTIVATIONPEDAL'', 61),
     (''M_W_ACTIVATIONPEDAL'', 62),
     (''M_R_PEDALMODE'', 63),
     (''M_W_PEDALMODE'', 64),
     (''M_R_FILTERSTATUS'', 65),
     (''M_R_RESETFILTER'', 66),
     (''M_R_CONNECTEDPEDAL'', 68),
     (''M_R_FILTERSAT'', 69),
     (''M_RESETSTATION'', 80),
     (''M_R_PIN'', 81),
     (''M_W_PIN'', 82),
     (''M_R_STATIONLOCKED'', 83),
     (''M_W_STATIONLOCKED'', 84),
     (''M_R_BEEP'', 85),
     (''M_W_BEEP'', 86),
     (''M_R_CONTINUOUSSUCTION'', 87),
     (''M_W_CONTINUOUSSUCTION'', 88),
     (''M_R_STATERROR'', 89),
     (''M_R_DEVICENAME'', 91),
     (''M_W_DEVICENAME'', 92),
     (''M_R_PINENABLED'', 93),
     (''M_W_PINENABLED'', 94),
     (''M_W_WORKINTAKES'', 96),
     (''M_R_COUNTERS'', 192),
     (''M_R_RESETCOUNTERS'', 193),
     (''M_R_COUNTERSP'', 194),
     (''M_R_RESETCOUNTERSP'', 195),
     (''M_R_USB_CONNECTSTATUS'', 224),
     (''M_W_USB_CONNECTSTATUS'', 225),
     (''M_R_RBT_CONNCONFIG'', 240),
     (''M_W_RBT_CONNCONFIG'', 241),
     (''M_R_RBT_CONNECTSTATUS'', 242),
     (''M_W_RBT_CONNECTSTATUS'', 243)]"

text \<open>The names and the values a namespace declares.\<close>

definition names_of :: "cmd_table \<Rightarrow> string list" where
  "names_of t = map fst t"

definition values_of :: "cmd_table \<Rightarrow> u8 list" where
  "values_of t = map snd t"

section \<open>The value set the specification gives for FE_02\<close>

text \<open>
  This definition follows the words of the specification, not the header: the FE_02
  values "as enumerated (0,4,6,21,22,28-41,48-69,80-96,192-195,224-225,240-243)",
  each range read as every integer between its two ends.
\<close>

definition spec_FE_02_values :: "u8 set" where
  "spec_FE_02_values =
     {0, 4, 6, 21, 22} \<union> {28..41} \<union> {48..69} \<union> {80..96}
       \<union> {192, 193, 194, 195, 224, 225, 240, 241, 242, 243}"

section \<open>Namespaces and classification of a byte\<close>

text \<open>
  The comment at the head of the file lists the namespaces BASE, SOLD_01, SOLD_02,
  HA_02, FE_02, PH_02 and SF_02; the file defines BASE and FE_02 only, and these two
  are enumerated here.
\<close>

datatype cmd_namespace = NS_BASE | NS_FE_02

fun namespace_table :: "cmd_namespace \<Rightarrow> cmd_table" where
  "namespace_table NS_BASE = BASE"
| "namespace_table NS_FE_02 = FE_02"

text \<open>The namespaces that declare a constant of value \<open>b\<close>, in the header's order.\<close>

definition namespaces_of :: "u8 \<Rightarrow> cmd_namespace list" where
  "namespaces_of b =
     filter (\<lambda>ns. b \<in> set (values_of (namespace_table ns))) [NS_BASE, NS_FE_02]"

text \<open>
  Modelled from the spec: the result type of \<open>classify\<close>, which the header does not
  declare. Section 4.2 of the specification gives the three outcomes
  \<open>{BASE control-op, FE_02 op, Unknown}\<close>; a known outcome carries the name of the
  constant, so that it identifies the command.
\<close>

datatype classification = BASE_control_op string | FE_02_op string | Unknown

text \<open>
  Modelled from the spec: the lookup of a byte in one table of the registry, missing
  from the header, which holds the tables alone. It returns the name of the first
  constant of the table that has the value, the pure lookup of section 4.2.
\<close>

definition lookup_value :: "cmd_table \<Rightarrow> u8 \<Rightarrow> string option" where
  "lookup_value t b = map_option fst (find (\<lambda>e. snd e = b) t)"

text \<open>
  Modelled from the spec: the function \<open>classify(byte)\<close> of section 4.2, missing from
  the header. A byte that is the value of a constant of the table resolves to a known
  classification, any other byte to \<open>Unknown\<close>. The tables are searched in the order
  in which the specification lists the outcomes: BASE, then FE_02.
\<close>

definition classify :: "u8 \<Rightarrow> classification" where
  "classify b =
     (case lookup_value BASE b of
        Some n \<Rightarrow> BASE_control_op n
      | None \<Rightarrow>
          (case lookup_value FE_02 b of
             Some n \<Rightarrow> FE_02_op n
           | None \<Rightarrow> Unknown))"

section \<open>Facts about the two tables\<close>

lemma distinct_values_BASE: "distinct (values_of BASE)"
  by (simp add: values_of_def BASE_def)

lemma distinct_values_FE_02: "distinct (values_of FE_02)"
  by (simp add: values_of_def FE_02_def)

lemma distinct_names_BASE: "distinct (names_of BASE)"
  by (simp add: names_of_def BASE_def)

lemma distinct_names_FE_02: "distinct (names_of FE_02)"
  by (simp add: names_of_def FE_02_def)

lemma BASE_subset_FE_02: "set BASE \<subseteq> set FE_02"
  by (simp add: BASE_def FE_02_def)

lemma set_values_BASE: "set (values_of BASE) = {0, 6, 21, 22, 32, 33}"
  by (simp add: values_of_def BASE_def)

lemma in_BASE_M_HS: "(''M_HS'', 0) \<in> set BASE"
  by (simp add: BASE_def)

lemma in_BASE_M_ACK: "(''M_ACK'', 6) \<in> set BASE"
  by (simp add: BASE_def)

lemma in_FE_02_M_R_PIN: "(''M_R_PIN'', 81) \<in> set FE_02"
  by (simp add: FE_02_def)

lemma in_FE_02_M_W_PIN: "(''M_W_PIN'', 82) \<in> set FE_02"
  by (simp add: FE_02_def)

lemma not_in_67: "(67::u8) \<notin> set (values_of BASE) \<union> set (values_of FE_02)"
  by (simp add: values_of_def BASE_def FE_02_def)

text \<open>In a table whose values are pairwise distinct, a value has one name at most.\<close>

lemma same_value_same_name:
  "distinct (values_of t) \<Longrightarrow> (n1, v) \<in> set t \<Longrightarrow> (n2, v) \<in> set t \<Longrightarrow> n1 = n2"
  by (induction t) (auto simp: values_of_def rev_image_eqI)

lemma at_most_one_entry:
  "distinct (values_of t) \<Longrightarrow> length (filter (\<lambda>e. snd e = v) t) \<le> 1"
proof (induction t)
  case Nil
  then show ?case by simp
next
  case (Cons e t)
  then have d: "snd e \<notin> snd ` set t" and IH: "length (filter (\<lambda>e. snd e = v) t) \<le> 1"
    by (simp_all add: values_of_def)
  show ?case
  proof (cases "snd e = v")
    case True
    with d have "\<forall>x \<in> set t. snd x \<noteq> v"
      by blast
    then have "filter (\<lambda>e. snd e = v) t = []"
      by (simp add: filter_empty_conv)
    with True show ?thesis by simp
  next
    case False
    with IH show ?thesis by simp
  qed
qed

subsection \<open>Ranges of bytes, element by element\<close>

lemma iv_28_41:
  "(x \<in> {28..41::u8}) = (x \<in> {28, 29, 30, 31, 32, 33, 34, 35, 36, 37, 38, 39, 40, 41})"
  by (simp add: word_le_nat_alt word_unat_eq_iff; arith)

lemma iv_48_66:
  "(x \<in> {48..66::u8}) =
     (x \<in> {48, 49, 50, 51, 52, 53, 54, 55, 56, 57, 58, 59, 60, 61, 62, 63, 64, 65, 66})"
  by (simp add: word_le_nat_alt word_unat_eq_iff; arith)

lemma iv_80_89: "(x \<in> {80..89::u8}) = (x \<in> {80, 81, 82, 83, 84, 85, 86, 87, 88, 89})"
  by (simp add: word_le_nat_alt word_unat_eq_iff; arith)

lemma iv_91_94: "(x \<in> {91..94::u8}) = (x \<in> {91, 92, 93, 94})"
  by (simp add: word_le_nat_alt word_unat_eq_iff; arith)

lemma iv_192_195: "(x \<in> {192..195::u8}) = (x \<in> {192, 193, 194, 195})"
  by (simp add: word_le_nat_alt word_unat_eq_iff; arith)

lemma iv_240_243: "(x \<in> {240..243::u8}) = (x \<in> {240, 241, 242, 243})"
  by (simp add: word_le_nat_alt word_unat_eq_iff; arith)

lemma set_values_FE_02:
  "set (values_of FE_02) =
     {0, 4, 6, 21, 22} \<union> {28..41} \<union> {48..66} \<union> {68, 69} \<union> {80..89} \<union> {91..94} \<union> {96}
       \<union> {192..195} \<union> {224, 225} \<union> {240..243}"
proof (rule set_eqI)
  fix x :: u8
  show "(x \<in> set (values_of FE_02)) =
     (x \<in> {0, 4, 6, 21, 22} \<union> {28..41} \<union> {48..66} \<union> {68, 69} \<union> {80..89} \<union> {91..94} \<union> {96}
       \<union> {192..195} \<union> {224, 225} \<union> {240..243})"
    unfolding Un_iff iv_28_41 iv_48_66 iv_80_89 iv_91_94 iv_192_195 iv_240_243
    by (simp add: values_of_def FE_02_def)
qed

lemma spec_values_without_gaps:
  "spec_FE_02_values - {67, 90, 95} =
     {0, 4, 6, 21, 22} \<union> {28..41} \<union> {48..66} \<union> {68, 69} \<union> {80..89} \<union> {91..94} \<union> {96}
       \<union> {192..195} \<union> {224, 225} \<union> {240..243}"
proof (rule set_eqI)
  fix x :: u8
  show "(x \<in> spec_FE_02_values - {67, 90, 95}) =
     (x \<in> {0, 4, 6, 21, 22} \<union> {28..41} \<union> {48..66} \<union> {68, 69} \<union> {80..89} \<union> {91..94} \<union> {96}
       \<union> {192..195} \<union> {224, 225} \<union> {240..243})"
    by (simp add: spec_FE_02_values_def word_le_nat_alt word_unat_eq_iff; arith)
qed

subsection \<open>The lookup of a value\<close>

lemma lookup_value_None: "(lookup_value t b = None) = (b \<notin> set (values_of t))"
  by (induction t) (auto simp: lookup_value_def values_of_def)

lemma lookup_value_Some: "lookup_value t b = Some n \<Longrightarrow> (n, b) \<in> set t"
  by (induction t) (auto simp: lookup_value_def split: if_splits)

lemma lookup_value_SomeI:
  assumes "distinct (values_of t)" and "(n, b) \<in> set t"
  shows "lookup_value t b = Some n"
proof (cases "lookup_value t b")
  case None
  with assms(2) show ?thesis
    by (force simp: lookup_value_None values_of_def)
next
  case (Some m)
  then have "(m, b) \<in> set t" by (rule lookup_value_Some)
  with assms have "m = n" by (blast intro: same_value_same_name)
  with Some show ?thesis by simp
qed

lemma classify_Unknown_iff:
  "(classify b = Unknown) = (b \<notin> set (values_of BASE) \<and> b \<notin> set (values_of FE_02))"
  by (auto simp: classify_def lookup_value_None [symmetric] split: option.splits)

lemma classify_BASE_D: "classify b = BASE_control_op n \<Longrightarrow> (n, b) \<in> set BASE"
  by (auto simp: classify_def split: option.splits dest: lookup_value_Some)

lemma classify_FE_02_D:
  "classify b = FE_02_op n \<Longrightarrow> (n, b) \<in> set FE_02 \<and> b \<notin> set (values_of BASE)"
  by (auto simp: classify_def lookup_value_None [symmetric] split: option.splits
      dest: lookup_value_Some)

lemma classify_BASE_I: "(n, b) \<in> set BASE \<Longrightarrow> classify b = BASE_control_op n"
  by (simp add: classify_def lookup_value_SomeI [OF distinct_values_BASE])

lemma classify_FE_02_I:
  assumes "(n, b) \<in> set FE_02"
  shows "classify b = BASE_control_op n \<or> classify b = FE_02_op n"
proof (cases "lookup_value BASE b")
  case None
  with assms show ?thesis
    by (simp add: classify_def lookup_value_SomeI [OF distinct_values_FE_02])
next
  case (Some m)
  then have "(m, b) \<in> set BASE" by (rule lookup_value_Some)
  with BASE_subset_FE_02 have "(m, b) \<in> set FE_02" by blast
  with assms have "m = n"
    by (blast intro: same_value_same_name [OF distinct_values_FE_02])
  with Some show ?thesis by (simp add: classify_def)
qed

lemma namespaces_of_cases:
  "namespaces_of b =
     (if b \<in> set (values_of BASE) then [NS_BASE, NS_FE_02]
      else if b \<in> set (values_of FE_02) then [NS_FE_02] else [])"
proof -
  have "set (values_of BASE) \<subseteq> set (values_of FE_02)"
    using BASE_subset_FE_02 by (auto simp: values_of_def)
  then show ?thesis by (auto simp: namespaces_of_def)
qed

lemma namespace_table_distinct: "distinct (values_of (namespace_table ns))"
  by (cases ns) (simp_all add: distinct_values_BASE distinct_values_FE_02)

subsection \<open>The read and the write commands of FE_02\<close>

lemma read_entries:
  "(''M_R_'' @ reg, r) \<in> set FE_02 \<Longrightarrow>
     (reg, r) \<in> {(''DEVICEIDORIGINAL'', 28), (''DISCOVER'', 29), (''DEVICEID'', 30),
       (''SUCTIONLEVEL'', 48), (''FLOW'', 50), (''SPEED'', 51), (''SELECTFLOW'', 52),
       (''STANDINTAKES'', 54), (''INTAKEACTIVATION'', 56), (''SUCTIONDELAY'', 58),
       (''DELAYTIME'', 60), (''ACTIVATIONPEDAL'', 61), (''PEDALMODE'', 63),
       (''FILTERSTATUS'', 65), (''RESETFILTER'', 66), (''CONNECTEDPEDAL'', 68),
       (''FILTERSAT'', 69), (''PIN'', 81), (''STATIONLOCKED'', 83), (''BEEP'', 85),
       (''CONTINUOUSSUCTION'', 87), (''STATERROR'', 89), (''DEVICENAME'', 91),
       (''PINENABLED'', 93), (''COUNTERS'', 192), (''RESETCOUNTERS'', 193),
       (''COUNTERSP'', 194), (''RESETCOUNTERSP'', 195), (''USB_CONNECTSTATUS'', 224),
       (''RBT_CONNCONFIG'', 240), (''RBT_CONNECTSTATUS'', 242)}"
  by (simp add: FE_02_def)

lemma write_lookup:
  "map_of FE_02 (''M_W_'' @ reg) =
     map_of [(''DEVICEID'', 31), (''SUCTIONLEVEL'', 49), (''SELECTFLOW'', 53),
       (''STANDINTAKES'', 55), (''INTAKEACTIVATION'', 57), (''SUCTIONDELAY'', 59),
       (''ACTIVATIONPEDAL'', 62), (''PEDALMODE'', 64), (''PIN'', 82), (''STATIONLOCKED'', 84),
       (''BEEP'', 86), (''CONTINUOUSSUCTION'', 88), (''DEVICENAME'', 92), (''PINENABLED'', 94),
       (''WORKINTAKES'', 96), (''USB_CONNECTSTATUS'', 225), (''RBT_CONNCONFIG'', 241),
       (''RBT_CONNECTSTATUS'', 243)] reg"
  by (simp add: FE_02_def)

section \<open>The value set of FE_02\<close>

text \<open>
  The enumeration of the specification reads 48-69 and 80-96 as full ranges. The header
  declares no FE_02 constant of value 67, 90 or 95: M_R_RESETFILTER = 66 is followed by
  M_R_CONNECTEDPEDAL = 68, M_R_STATERROR = 89 by M_R_DEVICENAME = 91, and
  M_W_PINENABLED = 94 by M_W_WORKINTAKES = 96. So the set claimed for FE_02 holds three
  bytes that are the value of no FE_02 constant.
\<close>

theorem FE_02_spec_values_counterexample:
  "(67::u8) \<in> spec_FE_02_values \<and> 67 \<notin> set (values_of FE_02)
   \<and> (90::u8) \<in> spec_FE_02_values \<and> 90 \<notin> set (values_of FE_02)
   \<and> (95::u8) \<in> spec_FE_02_values \<and> 95 \<notin> set (values_of FE_02)"
  by (simp add: spec_FE_02_values_def values_of_def FE_02_def)

text \<open>
  Claim C1, as amended. The set of the values of the constants of namespace FE_02 is
  exactly {0, 4, 6, 21, 22, every integer from 28 to 41, every integer from 48 to 66,
  68, 69, every integer from 80 to 89, every integer from 91 to 94, 96, 192, 193, 194,
  195, 224, 225, 240, 241, 242, 243}: the set of the specification without 67, 90 and
  95. Equivalently, a byte is the value of some FE_02 constant if and only if it lies
  in this set.
\<close>

theorem FE_02_value_set:
  "set (values_of FE_02) =
     {0, 4, 6, 21, 22} \<union> {28..41} \<union> {48..66} \<union> {68, 69} \<union> {80..89} \<union> {91..94} \<union> {96}
       \<union> {192..195} \<union> {224, 225} \<union> {240..243}
   \<and> set (values_of FE_02) = spec_FE_02_values - {67, 90, 95}
   \<and> ((\<exists>n. (n, b) \<in> set FE_02) = (b \<in> spec_FE_02_values - {67, 90, 95}))
   \<and> length FE_02 = 65 \<and> card (set (values_of FE_02)) = 65"
proof -
  have 1: "set (values_of FE_02) = spec_FE_02_values - {67, 90, 95}"
    by (simp only: set_values_FE_02 spec_values_without_gaps)
  have "(\<exists>n. (n, b) \<in> set FE_02) = (b \<in> set (values_of FE_02))"
    by (force simp: values_of_def)
  with 1 have 2: "(\<exists>n. (n, b) \<in> set FE_02) = (b \<in> spec_FE_02_values - {67, 90, 95})"
    by simp
  have 3: "length FE_02 = 65"
    by (simp add: FE_02_def)
  have "card (set (values_of FE_02)) = length (values_of FE_02)"
    by (rule distinct_card [OF distinct_values_FE_02])
  with 3 have 4: "card (set (values_of FE_02)) = 65"
    by (simp add: values_of_def)
  from 1 2 3 4 set_values_FE_02 show ?thesis by blast
qed

section \<open>The BASE namespace\<close>

text \<open>
  Claim C2. The BASE namespace declares exactly six constants, M_HS = 0, M_ACK = 6,
  M_NACK = 21, M_SYN = 22, M_RESET = 32 and M_FIRMWARE = 33: the names are these six,
  each name is bound to its value, and the set of BASE values is {0, 6, 21, 22, 32, 33}.
\<close>

theorem BASE_six_constants:
  "length BASE = 6
   \<and> names_of BASE = [''M_HS'', ''M_ACK'', ''M_NACK'', ''M_SYN'', ''M_RESET'', ''M_FIRMWARE'']
   \<and> distinct (names_of BASE)
   \<and> map_of BASE ''M_HS'' = Some 0
   \<and> map_of BASE ''M_ACK'' = Some 6
   \<and> map_of BASE ''M_NACK'' = Some 21
   \<and> map_of BASE ''M_SYN'' = Some 22
   \<and> map_of BASE ''M_RESET'' = Some 32
   \<and> map_of BASE ''M_FIRMWARE'' = Some 33
   \<and> set (values_of BASE) = {0, 6, 21, 22, 32, 33}
   \<and> card (set (values_of BASE)) = 6"
  by (simp add: BASE_def names_of_def values_of_def)

section \<open>Classification of a byte against the registry\<close>

text \<open>
  Claim C3. The classification function derived from the registry table is total on
  bytes. A byte that equals a constant of the BASE or of the FE_02 table gets a known
  classification that identifies the command: the constant's name in BASE when BASE
  declares the value, its name in FE_02 otherwise, and a known classification names a
  constant that has this value in that table. Any byte that equals no constant of the
  table is classified \<open>Unknown\<close>, and only such a byte is.
\<close>

theorem classify_total:
  "(classify b \<noteq> Unknown) = (b \<in> set (values_of BASE) \<union> set (values_of FE_02))
   \<and> ((n, b) \<in> set BASE \<longrightarrow> classify b = BASE_control_op n)
   \<and> ((n, b) \<in> set FE_02 \<longrightarrow> classify b = BASE_control_op n \<or> classify b = FE_02_op n)
   \<and> (classify b = BASE_control_op n \<longrightarrow> (n, b) \<in> set BASE)
   \<and> (classify b = FE_02_op n \<longrightarrow> (n, b) \<in> set FE_02)"
  using classify_Unknown_iff [of b] classify_BASE_I [of n b] classify_FE_02_I [of n b]
    classify_BASE_D [of b n] classify_FE_02_D [of b n]
  by blast

theorem classify_total_witness:
  "classify 6 = BASE_control_op ''M_ACK''
   \<and> classify 82 = FE_02_op ''M_W_PIN''
   \<and> classify 67 = Unknown"
proof -
  have a: "classify 6 = BASE_control_op ''M_ACK''"
    using classify_total [of 6 "''M_ACK''"] in_BASE_M_ACK by blast
  have "classify 82 \<noteq> BASE_control_op ''M_W_PIN''"
    using classify_total [of 82 "''M_W_PIN''"] by (auto simp: BASE_def)
  then have b: "classify 82 = FE_02_op ''M_W_PIN''"
    using classify_total [of 82 "''M_W_PIN''"] in_FE_02_M_W_PIN by blast
  have c: "classify 67 = Unknown"
    using classify_total [of 67 "[]"] not_in_67 by blast
  from a b c show ?thesis by blast
qed

section \<open>The namespaces of an accepted value\<close>

text \<open>
  The specification draws a command id "from the BASE or FE_02 namespace" and lets
  \<open>classify\<close> answer with either of them, so both are namespaces that a session of
  the fume-extractor family recognises. The byte 0 is accepted, and it is M_HS in BASE
  and M_HS in FE_02: it belongs to two recognised namespaces, not to exactly one.
\<close>

theorem one_namespace_counterexample:
  "classify 0 \<noteq> Unknown \<and> namespaces_of 0 = [NS_BASE, NS_FE_02]
   \<and> (''M_HS'', 0) \<in> set BASE \<and> (''M_HS'', 0) \<in> set FE_02"
  by (simp add: classify_Unknown_iff namespaces_of_cases set_values_BASE
      in_BASE_M_HS BASE_subset_FE_02 [THEN subsetD, OF in_BASE_M_HS])

text \<open>
  Claim C4, as amended. Every command value accepted for use on the wire belongs to at
  least one namespace that the session's protocol family recognises: always to FE_02,
  and to BASE as well exactly when it is one of 0, 6, 21, 22, 32, 33, where BASE and
  FE_02 give the value the same name. Every value that belongs to neither namespace is
  rejected (classified \<open>Unknown\<close>), not passed through. Within any one namespace a
  byte is the value of at most one constant, so the classification of a byte into the
  family's namespace is unambiguous.
\<close>

theorem accepted_value_namespaces:
  "(classify b \<noteq> Unknown \<longrightarrow>
      namespaces_of b = [NS_FE_02] \<or> namespaces_of b = [NS_BASE, NS_FE_02])
   \<and> (namespaces_of b = [NS_BASE, NS_FE_02]) = (b \<in> {0, 6, 21, 22, 32, 33})
   \<and> (namespaces_of b = [] \<longrightarrow> classify b = Unknown)
   \<and> ((n1, b) \<in> set (namespace_table ns) \<and> (n2, b) \<in> set (namespace_table ns) \<longrightarrow> n1 = n2)
   \<and> ((n1, b) \<in> set BASE \<and> (n2, b) \<in> set FE_02 \<longrightarrow> n1 = n2)"
proof -
  have 1: "classify b \<noteq> Unknown \<longrightarrow>
      namespaces_of b = [NS_FE_02] \<or> namespaces_of b = [NS_BASE, NS_FE_02]"
    by (simp add: classify_Unknown_iff namespaces_of_cases)
  have 2: "(namespaces_of b = [NS_BASE, NS_FE_02]) = (b \<in> {0, 6, 21, 22, 32, 33})"
    by (simp add: namespaces_of_cases set_values_BASE [symmetric])
  have 3: "namespaces_of b = [] \<longrightarrow> classify b = Unknown"
    by (simp add: classify_Unknown_iff namespaces_of_cases split: if_splits)
  have 4: "(n1, b) \<in> set (namespace_table ns) \<and> (n2, b) \<in> set (namespace_table ns)
      \<longrightarrow> n1 = n2"
    using same_value_same_name [OF namespace_table_distinct] by blast
  have 5: "(n1, b) \<in> set BASE \<and> (n2, b) \<in> set FE_02 \<longrightarrow> n1 = n2"
    using same_value_same_name [OF distinct_values_FE_02] BASE_subset_FE_02 by blast
  from 1 2 3 4 5 show ?thesis by blast
qed

theorem accepted_value_namespaces_witness:
  "namespaces_of 82 = [NS_FE_02] \<and> namespaces_of 0 = [NS_BASE, NS_FE_02]
   \<and> classify 67 = Unknown"
proof -
  have "classify 82 \<noteq> Unknown"
    using in_FE_02_M_W_PIN by (force simp: classify_Unknown_iff values_of_def)
  then have a: "namespaces_of 82 = [NS_FE_02]"
    using accepted_value_namespaces [of 82 "''M_W_PIN''" NS_FE_02 "''M_W_PIN''"] by auto
  have b: "namespaces_of 0 = [NS_BASE, NS_FE_02]"
    using accepted_value_namespaces [of 0 "''M_HS''" NS_BASE "''M_HS''"] by simp
  have "namespaces_of 67 = []"
    using not_in_67 by (simp add: namespaces_of_cases)
  then have c: "classify 67 = Unknown"
    using accepted_value_namespaces [of 67 "[]" NS_BASE "[]"] by blast
  from a b c show ?thesis by blast
qed

section \<open>Read and write commands of one register\<close>

text \<open>
  Claim C8. For every register of the FE_02 table that has both a read command
  \<open>M_R_reg\<close> and a write command \<open>M_W_reg\<close> of the same register name, the value
  of the write command is the value of the read command plus one, without wrap-around
  of the byte.
\<close>

theorem write_is_read_plus_one:
  assumes r: "map_of FE_02 (''M_R_'' @ reg) = Some r"
    and w: "map_of FE_02 (''M_W_'' @ reg) = Some w"
  shows "w = r + 1 \<and> unat w = unat r + 1"
proof -
  from r have "(''M_R_'' @ reg, r) \<in> set FE_02"
    by (rule map_of_SomeD)
  then have "(reg, r) \<in> {(''DEVICEIDORIGINAL'', 28), (''DISCOVER'', 29), (''DEVICEID'', 30),
       (''SUCTIONLEVEL'', 48), (''FLOW'', 50), (''SPEED'', 51), (''SELECTFLOW'', 52),
       (''STANDINTAKES'', 54), (''INTAKEACTIVATION'', 56), (''SUCTIONDELAY'', 58),
       (''DELAYTIME'', 60), (''ACTIVATIONPEDAL'', 61), (''PEDALMODE'', 63),
       (''FILTERSTATUS'', 65), (''RESETFILTER'', 66), (''CONNECTEDPEDAL'', 68),
       (''FILTERSAT'', 69), (''PIN'', 81), (''STATIONLOCKED'', 83), (''BEEP'', 85),
       (''CONTINUOUSSUCTION'', 87), (''STATERROR'', 89), (''DEVICENAME'', 91),
       (''PINENABLED'', 93), (''COUNTERS'', 192), (''RESETCOUNTERS'', 193),
       (''COUNTERSP'', 194), (''RESETCOUNTERSP'', 195), (''USB_CONNECTSTATUS'', 224),
       (''RBT_CONNCONFIG'', 240), (''RBT_CONNECTSTATUS'', 242)}"
    by (rule read_entries)
  with w [unfolded write_lookup] show ?thesis
    by auto
qed

theorem write_is_read_plus_one_witness:
  "map_of FE_02 ''M_R_SUCTIONLEVEL'' = Some 48 \<and> map_of FE_02 ''M_W_SUCTIONLEVEL'' = Some 49
   \<and> map_of FE_02 ''M_R_PIN'' = Some 81 \<and> map_of FE_02 ''M_W_PIN'' = Some 82
   \<and> map_of FE_02 ''M_R_RBT_CONNECTSTATUS'' = Some 242
   \<and> map_of FE_02 ''M_W_RBT_CONNECTSTATUS'' = Some 243
   \<and> (49::u8) = 48 + 1 \<and> (82::u8) = 81 + 1 \<and> (243::u8) = 242 + 1"
proof -
  have a: "map_of FE_02 (''M_R_'' @ ''SUCTIONLEVEL'') = Some 48"
    and b: "map_of FE_02 (''M_W_'' @ ''SUCTIONLEVEL'') = Some 49"
    and c: "map_of FE_02 (''M_R_'' @ ''PIN'') = Some 81"
    and d: "map_of FE_02 (''M_W_'' @ ''PIN'') = Some 82"
    and e: "map_of FE_02 (''M_R_'' @ ''RBT_CONNECTSTATUS'') = Some 242"
    and f: "map_of FE_02 (''M_W_'' @ ''RBT_CONNECTSTATUS'') = Some 243"
    by (simp_all add: FE_02_def)
  from write_is_read_plus_one [OF a b] write_is_read_plus_one [OF c d]
    write_is_read_plus_one [OF e f] a b c d e f
  show ?thesis by simp
qed

section \<open>Distinct constants within a namespace\<close>

text \<open>
  Claim C9. Within each namespace the named constants are pairwise distinct: the names
  of BASE are distinct and so are its values, and the same holds for FE_02. So no two
  names of one namespace share a value, and a byte selects at most one entry of a
  namespace.
\<close>

theorem namespace_constants_distinct:
  "distinct (names_of BASE) \<and> distinct (values_of BASE)
   \<and> distinct (names_of FE_02) \<and> distinct (values_of FE_02)
   \<and> ((n1, v) \<in> set BASE \<and> (n2, v) \<in> set BASE \<longrightarrow> n1 = n2)
   \<and> ((n1, v) \<in> set FE_02 \<and> (n2, v) \<in> set FE_02 \<longrightarrow> n1 = n2)
   \<and> length (filter (\<lambda>e. snd e = v) BASE) \<le> 1
   \<and> length (filter (\<lambda>e. snd e = v) FE_02) \<le> 1"
proof -
  have 1: "(n1, v) \<in> set BASE \<and> (n2, v) \<in> set BASE \<longrightarrow> n1 = n2"
    using same_value_same_name [OF distinct_values_BASE] by blast
  have 2: "(n1, v) \<in> set FE_02 \<and> (n2, v) \<in> set FE_02 \<longrightarrow> n1 = n2"
    using same_value_same_name [OF distinct_values_FE_02] by blast
  have 3: "length (filter (\<lambda>e. snd e = v) BASE) \<le> 1"
    by (rule at_most_one_entry [OF distinct_values_BASE])
  have 4: "length (filter (\<lambda>e. snd e = v) FE_02) \<le> 1"
    by (rule at_most_one_entry [OF distinct_values_FE_02])
  from 1 2 3 4 distinct_names_BASE distinct_values_BASE distinct_names_FE_02
    distinct_values_FE_02
  show ?thesis by blast
qed

theorem namespace_constants_distinct_witness:
  "(''M_ACK'', 6) \<in> set BASE \<and> (''M_NACK'', 6) \<notin> set BASE
   \<and> (''M_R_PIN'', 81) \<in> set FE_02 \<and> (''M_W_PIN'', 81) \<notin> set FE_02"
proof -
  have a: "(''M_NACK'', 6) \<notin> set BASE"
    using namespace_constants_distinct [of "''M_NACK''" 6 "''M_ACK''"] in_BASE_M_ACK
    by auto
  have b: "(''M_W_PIN'', 81) \<notin> set FE_02"
    using namespace_constants_distinct [of "''M_W_PIN''" 81 "''M_R_PIN''"] in_FE_02_M_R_PIN
    by auto
  from a b in_BASE_M_ACK in_FE_02_M_R_PIN show ?thesis by blast
qed

section \<open>BASE inside FE_02\<close>

text \<open>
  Claim C10. Every constant of the BASE namespace (M_HS, M_ACK, M_NACK, M_SYN, M_RESET,
  M_FIRMWARE) is also declared in the FE_02 namespace with the same value: each BASE
  entry is an FE_02 entry, the BASE values {0, 6, 21, 22, 32, 33} are FE_02 values, and
  on a name that both tables declare the two values are equal.
\<close>

theorem BASE_contained_in_FE_02:
  "set BASE \<subseteq> set FE_02
   \<and> set (names_of BASE) \<subseteq> set (names_of FE_02)
   \<and> set (values_of BASE) \<subseteq> set (values_of FE_02)
   \<and> {0, 6, 21, 22, 32, 33} \<subseteq> set (values_of FE_02)
   \<and> (map_of BASE n = Some v \<longrightarrow> map_of FE_02 n = Some v)
   \<and> (map_of BASE n = Some v \<and> map_of FE_02 n = Some w \<longrightarrow> v = w)"
proof -
  have 1: "set (names_of BASE) \<subseteq> set (names_of FE_02)"
    using BASE_subset_FE_02 by (auto simp: names_of_def)
  have 2: "set (values_of BASE) \<subseteq> set (values_of FE_02)"
    using BASE_subset_FE_02 by (auto simp: values_of_def)
  have 3: "map_of BASE n = Some v \<longrightarrow> map_of FE_02 n = Some v"
    using BASE_subset_FE_02 distinct_names_FE_02
    by (auto simp: names_of_def dest!: map_of_SomeD)
  from 1 2 3 BASE_subset_FE_02 show ?thesis
    unfolding set_values_BASE [symmetric] by auto
qed

theorem BASE_contained_in_FE_02_witness:
  "map_of BASE ''M_RESET'' = Some 32 \<and> map_of FE_02 ''M_RESET'' = Some 32"
proof -
  have "map_of BASE ''M_RESET'' = Some 32" by (simp add: BASE_def)
  with BASE_contained_in_FE_02 [of "''M_RESET''" 32 32] show ?thesis by blast
qed

end
